theory Spec2Isabelle
  imports Complex_Main
begin

unbundle bit_operations_syntax

section \<open>The layered signal sampler of \<^verbatim>\<open>vortex_dwm_lpe.py\<close>\<close>

text \<open>
  The script evaluates a closed-form decay \<open>exp (- \<alpha> * layer)\<close>, modulates it in space and
  in the layer index, turns the result into four bytes per pixel, and walks through the
  layers in order while it accumulates the decay values.

  Conventions of the embedding:
  \<^item> Python and numpy floats are modelled as \<open>real\<close>: \<open>np.exp\<close>, \<open>np.sin\<close>, \<open>np.cos\<close> and
    \<open>np.pi\<close> are \<open>exp\<close>, \<open>sin\<close>, \<open>cos\<close> and \<open>pi\<close>. Rounding of doubles is not modelled.
  \<^item> Python integers are \<open>int\<close>; \<open>%\<close> is \<open>mod\<close> (both take the sign of the divisor);
    \<open>&\<close> and \<open>^\<close> are \<open>AND\<close> and \<open>XOR\<close> on \<open>int\<close> (two's complement of unbounded width).
  \<^item> The module constants \<open>SCTT_ALPHA\<close>, \<open>SCTT_LAYERS\<close> and the list \<open>prime_windows\<close>
    that \<open>SCTT_VisualResonance.__init__\<close> stores are gathered in the record \<open>config\<close>
    and passed to every function; \<open>sctt_config\<close> holds the values of the source.
  \<^item> A Python exception is a value of \<open>py_error\<close>.
  \<^item> The calls into \<open>user32\<close>, \<open>gdi32\<close> and \<open>dwmapi\<close> and the clock are inputs: an
    environment says, for every layer, what each call returns or whether it raises.
  \<^item> \<open>print\<close> appends an \<open>event\<close> to the field \<open>printed\<close>; \<open>time.sleep\<close> changes
    nothing that the model observes.
\<close>

subsection \<open>Constants\<close>

record config =
  alpha :: real
  layers :: int
  prime_windows :: "int list"

definition SCTT_ALPHA :: real where
  "SCTT_ALPHA = 302011 / 10000000"

definition SCTT_LAYERS :: int where
  "SCTT_LAYERS = 33"

definition sctt_config :: config where
  "sctt_config =
     \<lparr>alpha = SCTT_ALPHA, layers = SCTT_LAYERS,
      prime_windows = [10007, 10009, 10037, 10039, 10061]\<rparr>"

definition SCTT_CASCADE_FACTOR :: "config \<Rightarrow> real" where
  "SCTT_CASCADE_FACTOR cfg =
     (1 - exp (- alpha cfg * real_of_int (layers cfg))) / alpha cfg"

datatype py_error = ZeroDivisionError | IndexError | ValueError | ExternalError

subsection \<open>\<open>SCTT_VisualResonance\<close>\<close>

text \<open>
  \<open>calculate_visual_resonance\<close>, lines 47 to 64. \<open>1 / self.alpha\<close> and the division by
  \<open>self.layers\<close> are divisions of Python floats and raise on a zero divisor.
\<close>

definition calculate_visual_resonance :: "config \<Rightarrow> int \<Rightarrow> int \<Rightarrow> int \<Rightarrow> py_error + real" where
  "calculate_visual_resonance cfg layer x y =
     (let base_energy = exp (- alpha cfg * real_of_int layer) in
      if alpha cfg = 0 then Inl ZeroDivisionError
      else
        let spatial_wavelength = 1 / alpha cfg;
            spatial_factor = sin (2 * pi * real_of_int (x + y) / spatial_wavelength)
        in
          if layers cfg = 0 then Inl ZeroDivisionError
          else
            let temporal_phase = sin (2 * pi * real_of_int layer / real_of_int (layers cfg));
                resonance =
                  base_energy * (1 + 0.3 * spatial_factor) * (1 + 0.2 * temporal_phase)
            in Inr resonance)"

text \<open>\<open>int(v)\<close> of a float: the fractional part is dropped, towards zero.\<close>

definition py_int :: "real \<Rightarrow> int" where
  "py_int v = (if 0 \<le> v then \<lfloor>v\<rfloor> else \<lceil>v\<rceil>)"

text \<open>
  The body of the pixel loop, lines 78 to 96: the three colour bytes, the mask, and the
  four stores into the \<open>bytearray\<close>. A store outside the buffer raises \<open>IndexError\<close>, a
  value outside \<open>range(256)\<close> raises \<open>ValueError\<close>.
\<close>

definition pattern_of :: "int \<Rightarrow> int" where
  "pattern_of layer = (if layer mod 2 = 0 then 170 else 85)"

definition pixel_rgba :: "int \<Rightarrow> real \<Rightarrow> int \<times> int \<times> int \<times> int" where
  "pixel_rgba layer resonance =
     (let r = py_int (255 * resonance) AND 255;
          g = py_int (255 * sin (resonance * pi)) AND 255;
          b = py_int (255 * cos (resonance * pi)) AND 255;
          a = 255;
          pattern = pattern_of layer
      in (r XOR pattern, g XOR pattern, b XOR pattern, a))"

definition is_byte :: "int \<Rightarrow> bool" where
  "is_byte v = (0 \<le> v \<and> v < 256)"

definition store_pixel :: "int list \<Rightarrow> nat \<Rightarrow> int \<times> int \<times> int \<times> int \<Rightarrow> py_error + int list" where
  "store_pixel buffer idx px =
     (case px of (r, g, b, a) \<Rightarrow>
        if \<not> idx + 3 < length buffer then Inl IndexError
        else if \<not> (is_byte r \<and> is_byte g \<and> is_byte b \<and> is_byte a) then Inl ValueError
        else Inr (buffer[idx := r, idx + 1 := g, idx + 2 := b, idx + 3 := a]))"

text \<open>
  The two nested \<open>for\<close> loops of \<open>create_resonant_pixel_buffer\<close>, lines 73 to 96, run
  through the pairs \<open>(y, x)\<close> in row-major order; an exception leaves the loops.
\<close>

fun pixel_loop :: "config \<Rightarrow> int \<Rightarrow> nat \<Rightarrow> (nat \<times> nat) list \<Rightarrow> int list \<Rightarrow> py_error + int list" where
  "pixel_loop cfg layer width [] buffer = Inr buffer"
| "pixel_loop cfg layer width ((y, x) # rest) buffer =
     (case calculate_visual_resonance cfg layer (int x) (int y) of
        Inl e \<Rightarrow> Inl e
      | Inr resonance \<Rightarrow>
          (case store_pixel buffer ((y * width + x) * 4) (pixel_rgba layer resonance) of
             Inl e \<Rightarrow> Inl e
           | Inr buffer' \<Rightarrow> pixel_loop cfg layer width rest buffer'))"

definition create_resonant_pixel_buffer :: "config \<Rightarrow> int \<Rightarrow> nat \<Rightarrow> nat \<Rightarrow> py_error + int list" where
  "create_resonant_pixel_buffer cfg layer width height =
     pixel_loop cfg layer width (List.product [0..<height] [0..<width])
       (replicate (width * height * 4) 0)"

text \<open>
  \<open>prime_resonance_timing\<close>, lines 100 to 110. The reading of the clock,
  \<open>int(time.time() * 1e6)\<close>, is the argument \<open>current_us\<close>. Both \<open>%\<close> raise on a zero
  divisor.
\<close>

definition prime_resonance_timing :: "config \<Rightarrow> int \<Rightarrow> int \<Rightarrow> py_error + real" where
  "prime_resonance_timing cfg layer current_us =
     (let n = int (length (prime_windows cfg)) in
      if n = 0 then Inl ZeroDivisionError
      else
        let prime = prime_windows cfg ! nat (layer mod n) in
          if prime = 0 then Inl ZeroDivisionError
          else
            let wait_us = (prime - (current_us mod prime)) mod prime
            in Inr (real_of_int wait_us / 1000000))"

subsection \<open>\<open>SCTT_DWM_Vortex\<close>\<close>

text \<open>A handle is \<open>None\<close> or the integer a Win32 call returned; \<open>None\<close> and 0 are falsy.\<close>

type_synonym handle = "int option"

definition truthy :: "handle \<Rightarrow> bool" where
  "truthy h = (case h of None \<Rightarrow> False | Some v \<Rightarrow> v \<noteq> 0)"

datatype event =
    WindowFailed
  | LayerBanner int
  | ResonanceFailed int
  | StatusAchieved int
  | StatusFailed int
  | SingularityReached
  | PayloadExecuted nat
  | CascadeComplete

record vortex =
  hwnd :: handle
  hdc :: handle
  hbitmap :: handle
  layer_energies :: "real list"
  total_cascade_energy :: real
  printed :: "event list"

text \<open>\<open>__init__\<close>, lines 121 to 131: \<open>[0.0] * n\<close> is empty for \<open>n \<le> 0\<close>. Nothing is checked.\<close>

definition SCTT_DWM_Vortex_init :: "config \<Rightarrow> py_error + vortex" where
  "SCTT_DWM_Vortex_init cfg =
     Inr \<lparr>hwnd = None, hdc = None, hbitmap = None,
          layer_energies = replicate (nat (layers cfg)) 0,
          total_cascade_energy = 0, printed = []\<rparr>"

text \<open>What an external call did: it raised, or it returned a value.\<close>

datatype 'a call = Raises | Returns 'a

record window_env =
  create_window :: "int call"
  get_dc :: "int call"

record layer_env =
  driver_time_us :: int
  step_time_us :: int
  dib_section :: "int call"
  get_object :: "int call"
  from_address :: "unit call"
  blit :: "unit call"
  dwm_flush :: "unit call"

text \<open>
  \<open>create_resonant_window\<close>, lines 133 to 169. \<open>create_window\<close> stands for lines 139 to
  157 (registering the class and \<open>CreateWindowExW\<close>), \<open>get_dc\<close> for line 163.
\<close>

definition create_resonant_window :: "window_env \<Rightarrow> vortex \<Rightarrow> vortex \<times> bool" where
  "create_resonant_window w s =
     (case create_window w of
        Raises \<Rightarrow> (s, False)
      | Returns h \<Rightarrow>
          let s1 = s\<lparr>hwnd := Some h\<rparr> in
            if h = 0 then (s1, False)
            else (case get_dc w of
                    Raises \<Rightarrow> (s1, False)
                  | Returns d \<Rightarrow> (s1\<lparr>hdc := Some d\<rparr>, True)))"

text \<open>The expression of lines 211 and 281.\<close>

definition layer_energy :: "config \<Rightarrow> int \<Rightarrow> real" where
  "layer_energy cfg layer = exp (- alpha cfg * real_of_int layer)"

text \<open>
  Lines 211 to 213. A list store takes a negative index from the end and raises
  \<open>IndexError\<close> outside the list; the total is then not touched.
\<close>

definition record_energy :: "config \<Rightarrow> int \<Rightarrow> vortex \<Rightarrow> py_error + vortex" where
  "record_energy cfg layer s =
     (let n = int (length (layer_energies s));
          i = (if layer < 0 then n + layer else layer)
      in if 0 \<le> i \<and> i < n
         then Inr (s\<lparr>layer_energies := (layer_energies s)[nat i := layer_energy cfg layer],
                     total_cascade_energy := total_cascade_energy s + layer_energy cfg layer\<rparr>)
         else Inl IndexError)"

definition flush :: "layer_env \<Rightarrow> vortex \<Rightarrow> vortex \<times> py_error option" where
  "flush e s = (case dwm_flush e of Raises \<Rightarrow> (s, Some ExternalError) | Returns _ \<Rightarrow> (s, None))"

text \<open>
  The \<open>try\<close> block of \<open>induce_frame_buffer_resonance\<close>, lines 186 to 232. The result is
  the object as the block left it and the exception that ended it, if any.
  \<open>dib_section\<close> stands for lines 196 to 202, \<open>get_object\<close> for line 206,
  \<open>from_address\<close> for line 208, \<open>blit\<close> for lines 216 to 226.
\<close>

definition resonance_try :: "config \<Rightarrow> layer_env \<Rightarrow> vortex \<Rightarrow> int \<Rightarrow> vortex \<times> py_error option" where
  "resonance_try cfg e s layer =
     (case prime_resonance_timing cfg layer (step_time_us e) of
        Inl err \<Rightarrow> (s, Some err)
      | Inr wait_time \<Rightarrow>
     (case create_resonant_pixel_buffer cfg layer 640 480 of
        Inl err \<Rightarrow> (s, Some err)
      | Inr pixel_buffer \<Rightarrow>
     (case dib_section e of
        Raises \<Rightarrow> (s, Some ExternalError)
      | Returns h \<Rightarrow>
          let s1 = s\<lparr>hbitmap := Some h\<rparr> in
            if h = 0 then flush e s1
            else
              (case get_object e of
                 Raises \<Rightarrow> (s1, Some ExternalError)
               | Returns buffer_ptr \<Rightarrow>
                   if buffer_ptr = 0 then flush e s1
                   else
                     (case from_address e of
                        Raises \<Rightarrow> (s1, Some ExternalError)
                      | Returns _ \<Rightarrow>
                          (case record_energy cfg layer s1 of
                             Inl err \<Rightarrow> (s1, Some err)
                           | Inr s2 \<Rightarrow>
                               (case blit e of
                                  Raises \<Rightarrow> (s2, Some ExternalError)
                                | Returns _ \<Rightarrow> flush e (s2\<lparr>hbitmap := None\<rparr>))))))))"

text \<open>\<open>induce_frame_buffer_resonance\<close>, lines 178 to 236.\<close>

definition induce_frame_buffer_resonance :: "config \<Rightarrow> layer_env \<Rightarrow> vortex \<Rightarrow> int \<Rightarrow> vortex \<times> bool" where
  "induce_frame_buffer_resonance cfg e s layer =
     (if \<not> truthy (hwnd s) \<or> \<not> truthy (hdc s) then (s, False)
      else
        (case resonance_try cfg e s layer of
           (s', None) \<Rightarrow> (s', True)
         | (s', Some err) \<Rightarrow> (s'\<lparr>printed := printed s' @ [ResonanceFailed layer]\<rparr>, False)))"

text \<open>\<open>if payload:\<close> holds for a byte string that is neither \<open>None\<close> nor empty.\<close>

definition payload_given :: "nat list option \<Rightarrow> bool" where
  "payload_given payload = (case payload of None \<Rightarrow> False | Some bs \<Rightarrow> bs \<noteq> [])"

text \<open>\<open>_execute_singularity_payload\<close>, lines 339 to 355: it prints, nothing else.\<close>

definition execute_singularity_payload :: "vortex \<Rightarrow> nat list \<Rightarrow> vortex" where
  "execute_singularity_payload s payload =
     s\<lparr>printed := printed s @ [PayloadExecuted (length payload)]\<rparr>"

text \<open>
  The body of the layer loop of \<open>execute_visual_singularity\<close>, lines 277 to 305, on the
  object and the counter \<open>successful_layers\<close>.
\<close>

definition layer_step :: "config \<Rightarrow> layer_env \<Rightarrow> nat list option \<Rightarrow> int \<Rightarrow> vortex \<times> nat \<Rightarrow> (vortex \<times> nat) \<times> py_error option" where
  "layer_step cfg e payload layer sn =
     (case sn of (s, successful_layers) \<Rightarrow>
        let s0 = s\<lparr>printed := printed s @ [LayerBanner layer]\<rparr> in
          (case prime_resonance_timing cfg layer (driver_time_us e) of
             Inl err \<Rightarrow> ((s0, successful_layers), Some err)
           | Inr resonance_delay \<Rightarrow>
               (case induce_frame_buffer_resonance cfg e s0 layer of
                  (s1, True) \<Rightarrow>
                    let s2 = s1\<lparr>printed := printed s1 @ [StatusAchieved layer]\<rparr>;
                        s3 = (if layer = 32
                              then let s' = s2\<lparr>printed := printed s2 @ [SingularityReached]\<rparr> in
                                   if payload_given payload
                                   then execute_singularity_payload s' (the payload)
                                   else s'
                              else s2)
                    in ((s3, successful_layers + 1), None)
                | (s1, False) \<Rightarrow>
                    ((s1\<lparr>printed := printed s1 @ [StatusFailed layer]\<rparr>, successful_layers),
                     None))))"

text \<open>The loop \<open>for layer in range(SCTT_LAYERS)\<close>: an exception of the body ends it.\<close>

fun cascade :: "config \<Rightarrow> (int \<Rightarrow> layer_env) \<Rightarrow> nat list option \<Rightarrow> int list \<Rightarrow> vortex \<times> nat \<Rightarrow> (vortex \<times> nat) \<times> py_error option" where
  "cascade cfg env payload [] sn = (sn, None)"
| "cascade cfg env payload (layer # rest) sn =
     (case layer_step cfg (env layer) payload layer sn of
        (sn', Some err) \<Rightarrow> (sn', Some err)
      | (sn', None) \<Rightarrow> cascade cfg env payload rest sn')"

definition range_layers :: "config \<Rightarrow> int list" where
  "range_layers cfg = map int [0..<nat (layers cfg)]"

text \<open>
  \<open>execute_visual_singularity\<close>, lines 238 to 337. The result is the object and either
  the exception that left the method or the value it returned. The calls of lines 257
  to 270 and 332 to 335 are taken to return. \<open>successful_layers / SCTT_LAYERS\<close> at line
  312 divides two Python integers.
\<close>

definition execute_visual_singularity :: "config \<Rightarrow> window_env \<Rightarrow> (int \<Rightarrow> layer_env) \<Rightarrow> nat list option \<Rightarrow> vortex \<Rightarrow> vortex \<times> (py_error + bool)" where
  "execute_visual_singularity cfg w env payload s =
     (case create_resonant_window w s of
        (s1, False) \<Rightarrow> (s1\<lparr>printed := printed s1 @ [WindowFailed]\<rparr>, Inr False)
      | (s1, True) \<Rightarrow>
          (case cascade cfg env payload (range_layers cfg) (s1, 0) of
             ((s2, successful_layers), Some err) \<Rightarrow> (s2, Inl err)
           | ((s2, successful_layers), None) \<Rightarrow>
               let s3 = s2\<lparr>printed := printed s2 @ [CascadeComplete]\<rparr> in
                 if layers cfg = 0 then (s3, Inl ZeroDivisionError)
                 else (s3, Inr (0 < successful_layers))))"

subsection \<open>Auxiliary notions for the statements\<close>

text \<open>The value \<open>calculate_visual_resonance\<close> returns where it returns one.\<close>

definition resonance_value :: "config \<Rightarrow> int \<Rightarrow> nat \<Rightarrow> nat \<Rightarrow> real" where
  "resonance_value cfg layer x y =
     (case calculate_visual_resonance cfg layer (int x) (int y) of Inr r \<Rightarrow> r | Inl _ \<Rightarrow> 0)"

definition chan :: "nat \<Rightarrow> int \<times> int \<times> int \<times> int \<Rightarrow> int" where
  "chan c px = (case px of (r, g, b, a) \<Rightarrow> [r, g, b, a] ! c)"

text \<open>The byte that belongs at position \<open>i\<close> of a buffer of the given width.\<close>

definition expected_byte :: "config \<Rightarrow> int \<Rightarrow> nat \<Rightarrow> nat \<Rightarrow> int" where
  "expected_byte cfg layer width i =
     chan (i mod 4)
       (pixel_rgba layer (resonance_value cfg layer (i div 4 mod width) (i div 4 div width)))"

text \<open>
  The bytes of a pixel in the words of the specification: every channel is the floor of
  its intermediate value, reduced modulo 256 and masked.
\<close>

definition spec_pixel_rgba :: "int \<Rightarrow> real \<Rightarrow> int \<times> int \<times> int \<times> int" where
  "spec_pixel_rgba layer r =
     (let m = (if layer mod 2 = 0 then 170 else 85)
      in ((\<lfloor>255 * r\<rfloor> mod 256) XOR m, (\<lfloor>255 * sin (r * pi)\<rfloor> mod 256) XOR m,
          (\<lfloor>255 * cos (r * pi)\<rfloor> mod 256) XOR m, 255))"

section \<open>The signal generator\<close>

lemma calculate_visual_resonance_eq:
  assumes "alpha cfg \<noteq> 0" "layers cfg \<noteq> 0"
  shows "calculate_visual_resonance cfg layer x y =
     Inr (exp (- alpha cfg * real_of_int layer)
          * (1 + 0.3 * sin (2 * pi * real_of_int (x + y) / (1 / alpha cfg)))
          * (1 + 0.2 * sin (2 * pi * real_of_int layer / real_of_int (layers cfg))))"
  using assms by (simp add: calculate_visual_resonance_def Let_def)

lemma resonance_defined:
  assumes "alpha cfg \<noteq> 0" "layers cfg \<noteq> 0"
  shows "calculate_visual_resonance cfg layer (int x) (int y) = Inr (resonance_value cfg layer x y)"
  using assms by (simp add: resonance_value_def calculate_visual_resonance_def Let_def)

text \<open>
  Claim C2. For a non-zero \<open>\<alpha>\<close>, a layer in \<open>[0, L)\<close> and integer coordinates, the
  resonance is \<open>exp (- \<alpha> * layer) * (1 + 0.3 * sin (2 * pi * (x + y) / wavelength)) *
  (1 + 0.2 * sin (2 * pi * layer / L))\<close> with \<open>wavelength = 1 / \<alpha>\<close>; with the constants of
  the source the resonance of layer 0 at the pixel \<open>(0, 0)\<close> is 1.
\<close>

theorem pixel_resonance_formula:
  assumes "alpha cfg \<noteq> 0" "0 \<le> layer" "layer < layers cfg"
  shows "calculate_visual_resonance cfg layer x y =
           Inr (exp (- alpha cfg * real_of_int layer)
                * (1 + 0.3 * sin (2 * pi * real_of_int (x + y) / (1 / alpha cfg)))
                * (1 + 0.2 * sin (2 * pi * real_of_int layer / real_of_int (layers cfg))))
         \<and> calculate_visual_resonance sctt_config 0 0 0 = Inr 1"
proof -
  have "layers cfg \<noteq> 0" using assms by simp
  then have g: "calculate_visual_resonance cfg layer x y =
           Inr (exp (- alpha cfg * real_of_int layer)
                * (1 + 0.3 * sin (2 * pi * real_of_int (x + y) / (1 / alpha cfg)))
                * (1 + 0.2 * sin (2 * pi * real_of_int layer / real_of_int (layers cfg))))"
    using assms(1) by (rule calculate_visual_resonance_eq [rotated])
  have c: "calculate_visual_resonance sctt_config 0 0 0 = Inr 1"
    by (simp add: calculate_visual_resonance_def Let_def sctt_config_def SCTT_ALPHA_def
        SCTT_LAYERS_def)
  show ?thesis using g c by (rule conjI)
qed

theorem pixel_resonance_formula_witness:
  "alpha sctt_config \<noteq> 0 \<and> (0 :: int) \<le> 1 \<and> 1 < layers sctt_config
   \<and> calculate_visual_resonance sctt_config 1 2 3 =
       Inr (exp (- alpha sctt_config * 1)
            * (1 + 0.3 * sin (2 * pi * 5 / (1 / alpha sctt_config)))
            * (1 + 0.2 * sin (2 * pi * 1 / real_of_int (layers sctt_config))))"
proof -
  have h: "alpha sctt_config \<noteq> 0" "(0 :: int) \<le> 1" "1 < layers sctt_config"
    by (simp_all add: sctt_config_def SCTT_ALPHA_def SCTT_LAYERS_def)
  show ?thesis using h pixel_resonance_formula [OF h, of 2 3] by simp
qed

lemma modulation_bounds:
  fixes b s t :: real
  assumes "- 1 \<le> s" "s \<le> 1" "- 1 \<le> t" "t \<le> 1" "0 < b"
  shows "(14 / 25) * b \<le> b * (1 + (3 / 10) * s) * (1 + (1 / 5) * t)"
    and "b * (1 + (3 / 10) * s) * (1 + (1 / 5) * t) \<le> (39 / 25) * b"
proof -
  define u where "u = 1 + (3 / 10) * s"
  define v where "v = 1 + (1 / 5) * t"
  have u: "7 / 10 \<le> u" "u \<le> 13 / 10" using assms unfolding u_def by linarith+
  have v: "4 / 5 \<le> v" "v \<le> 6 / 5" using assms unfolding v_def by linarith+
  have lo: "(7 / 10) * (4 / 5) \<le> u * v" using u v by (intro mult_mono) auto
  have hi: "u * v \<le> (13 / 10) * (6 / 5)" using u v by (intro mult_mono) auto
  have "b * ((7 / 10) * (4 / 5)) \<le> b * (u * v)" using lo assms(5) by (intro mult_left_mono) auto
  then show "(14 / 25) * b \<le> b * (1 + (3 / 10) * s) * (1 + (1 / 5) * t)"
    by (simp add: mult.assoc u_def v_def)
  have "b * (u * v) \<le> b * ((13 / 10) * (6 / 5))" using hi assms(5) by (intro mult_left_mono) auto
  then show "b * (1 + (3 / 10) * s) * (1 + (1 / 5) * t) \<le> (39 / 25) * b"
    by (simp add: mult.assoc u_def v_def)
qed

text \<open>
  Claim C10. For \<open>\<alpha> > 0\<close>, a layer in \<open>[0, L)\<close> and integer coordinates the resonance lies
  between \<open>0.56 * exp (- \<alpha> * layer)\<close> and \<open>1.56 * exp (- \<alpha> * layer)\<close>; it is positive, so
  that \<open>255 * resonance\<close> is not negative, and it is at most 1.56.
\<close>

theorem resonance_bounds:
  assumes "0 < alpha cfg" "0 \<le> layer" "layer < layers cfg"
  shows "\<exists>r. calculate_visual_resonance cfg layer x y = Inr r
            \<and> 0.56 * exp (- alpha cfg * real_of_int layer) \<le> r
            \<and> r \<le> 1.56 * exp (- alpha cfg * real_of_int layer)
            \<and> 0 < r \<and> 0 \<le> 255 * r \<and> r \<le> 1.56"
proof -
  define b where "b = exp (- alpha cfg * real_of_int layer)"
  define s where "s = sin (2 * pi * real_of_int (x + y) / (1 / alpha cfg))"
  define t where "t = sin (2 * pi * real_of_int layer / real_of_int (layers cfg))"
  define r where "r = b * (1 + (3 / 10) * s) * (1 + (1 / 5) * t)"
  have eq: "calculate_visual_resonance cfg layer x y = Inr r"
    using assms calculate_visual_resonance_eq [of cfg layer x y]
    by (simp add: b_def s_def t_def r_def)
  have b0: "0 < b" by (simp add: b_def)
  have "alpha cfg * real_of_int layer \<ge> 0" using assms by simp
  then have b1: "b \<le> 1" by (simp add: b_def)
  have st: "- 1 \<le> s" "s \<le> 1" "- 1 \<le> t" "t \<le> 1" by (simp_all add: s_def t_def)
  have L: "(14 / 25) * b \<le> r" and H: "r \<le> (39 / 25) * b"
    unfolding r_def using modulation_bounds [OF st b0] by blast+
  have P: "0 < r" using L b0 by linarith
  have T: "r \<le> 39 / 25" using H b1 by linarith
  have "0.56 * b \<le> r \<and> r \<le> 1.56 * b \<and> 0 < r \<and> 0 \<le> 255 * r \<and> r \<le> 1.56"
    using L H P T by simp
  then show ?thesis using eq unfolding b_def by blast
qed

theorem resonance_bounds_witness:
  "0 < alpha sctt_config \<and> (0 :: int) \<le> 32 \<and> 32 < layers sctt_config
   \<and> (\<exists>r. calculate_visual_resonance sctt_config 32 639 479 = Inr r
            \<and> 0.56 * exp (- alpha sctt_config * 32) \<le> r
            \<and> r \<le> 1.56 * exp (- alpha sctt_config * 32)
            \<and> 0 < r \<and> 0 \<le> 255 * r \<and> r \<le> 1.56)"
proof -
  have h: "0 < alpha sctt_config" "(0 :: int) \<le> 32" "32 < layers sctt_config"
    by (simp_all add: sctt_config_def SCTT_ALPHA_def SCTT_LAYERS_def)
  show ?thesis using h resonance_bounds [OF h, of 639 479] by simp
qed

subsection \<open>The pixel buffer\<close>

lemma and_255_mod: "(k::int) AND 255 = k mod 256"
proof -
  have "k AND mask 8 = take_bit 8 k" by (simp add: take_bit_eq_mask)
  moreover have "(mask 8 :: int) = 255" by (simp add: mask_eq_exp_minus_1)
  ultimately show ?thesis by (simp add: take_bit_eq_mod)
qed

lemma is_byte_masked: "is_byte ((k AND 255) XOR pattern_of layer)"
proof -
  have a: "0 \<le> k AND 255" "k AND 255 < 2 ^ 8" by (simp_all add: and_255_mod)
  have p: "0 \<le> pattern_of layer" "pattern_of layer < 2 ^ 8" by (simp_all add: pattern_of_def)
  have "(k AND 255) XOR pattern_of layer < 2 ^ 8" using a p by (intro XOR_upper) auto
  moreover have "0 \<le> (k AND 255) XOR pattern_of layer" using a p by simp
  ultimately show ?thesis by (simp add: is_byte_def)
qed

lemma pixel_bytes_ok:
  "case pixel_rgba layer res of (r, g, b, a) \<Rightarrow> is_byte r \<and> is_byte g \<and> is_byte b \<and> is_byte a"
  by (simp add: pixel_rgba_def Let_def is_byte_masked) (simp add: is_byte_def)

lemma store_pixel_ok:
  assumes "idx + 3 < length buffer"
  shows "store_pixel buffer idx (pixel_rgba layer res) =
    Inr (buffer[idx := chan 0 (pixel_rgba layer res), idx + 1 := chan 1 (pixel_rgba layer res),
                idx + 2 := chan 2 (pixel_rgba layer res), idx + 3 := chan 3 (pixel_rgba layer res)])"
  using assms pixel_bytes_ok [of layer res]
  by (cases "pixel_rgba layer res") (simp add: store_pixel_def chan_def)


lemma idx_decode:
  fixes i w x y :: nat
  assumes "x < w"
  shows "(i div 4 div w = y \<and> i div 4 mod w = x) \<longleftrightarrow>
         (i = (y * w + x) * 4 \<or> i = (y * w + x) * 4 + 1 \<or> i = (y * w + x) * 4 + 2
          \<or> i = (y * w + x) * 4 + 3)"
proof -
  have a: "(i div 4 div w = y \<and> i div 4 mod w = x) \<longleftrightarrow> i div 4 = y * w + x"
  proof
    assume "i div 4 div w = y \<and> i div 4 mod w = x"
    then show "i div 4 = y * w + x" using div_mult_mod_eq [of "i div 4" w] by simp
  next
    assume "i div 4 = y * w + x"
    then show "i div 4 div w = y \<and> i div 4 mod w = x" using assms by simp
  qed
  have b: "i div 4 = q \<longleftrightarrow> (i = q * 4 \<or> i = q * 4 + 1 \<or> i = q * 4 + 2 \<or> i = q * 4 + 3)" for q
    by arith
  show ?thesis using a b [of "y * w + x"] by simp
qed

lemma nth_store4:
  assumes "idx + 3 < length buf" "i < length buf"
  shows "(buf[idx := a, idx + 1 := b, idx + 2 := c, idx + 3 := d]) ! i =
     (if i = idx + 3 then d else if i = idx + 2 then c else if i = idx + 1 then b
      else if i = idx then a else buf ! i)"
  using assms by (simp add: nth_list_update)

lemma expected_at:
  assumes "x < w" "c < 4"
  shows "expected_byte cfg layer w ((y * w + x) * 4 + c) =
           chan c (pixel_rgba layer (resonance_value cfg layer x y))"
proof -
  define q where "q = y * w + x"
  have "(q * 4 + c) div 4 = q" "(q * 4 + c) mod 4 = c" using assms(2) by simp_all
  moreover have "q mod w = x" "q div w = y" using assms(1) by (simp_all add: q_def)
  ultimately show ?thesis unfolding q_def [symmetric] by (simp add: expected_byte_def)
qed

lemma pixel_loop_content:
  assumes "alpha cfg \<noteq> 0" "layers cfg \<noteq> 0"
    and "\<forall>(y, x) \<in> set ps. x < w \<and> (y * w + x) * 4 + 3 < length buf"
  shows "\<exists>buf'. pixel_loop cfg layer w ps buf = Inr buf' \<and> length buf' = length buf \<and>
     (\<forall>i < length buf. buf' ! i =
        (if (i div 4 div w, i div 4 mod w) \<in> set ps then expected_byte cfg layer w i else buf ! i))"
  using assms(3)
proof (induction ps arbitrary: buf)
  case Nil
  then show ?case by simp
next
  case (Cons p ps)
  obtain y x where p: "p = (y, x)" by (cases p)
  have xw: "x < w" and inb: "(y * w + x) * 4 + 3 < length buf" using Cons.prems p by auto
  define px where "px = pixel_rgba layer (resonance_value cfg layer x y)"
  define idx where "idx = (y * w + x) * 4"
  define buf1 where "buf1 = buf[idx := chan 0 px, idx + 1 := chan 1 px, idx + 2 := chan 2 px, idx + 3 := chan 3 px]"
  have len1: "length buf1 = length buf" by (simp add: buf1_def)
  have st: "store_pixel buf idx px = Inr buf1"
    unfolding px_def buf1_def using inb store_pixel_ok [of idx buf layer] by (simp add: idx_def)
  have step: "pixel_loop cfg layer w (p # ps) buf = pixel_loop cfg layer w ps buf1"
    using st resonance_defined [OF assms(1,2), of layer x y]
    by (simp add: p px_def idx_def)
  have pre: "\<forall>(y, x) \<in> set ps. x < w \<and> (y * w + x) * 4 + 3 < length buf1"
    using Cons.prems len1 by auto
  from Cons.IH [OF pre] obtain buf' where
    r: "pixel_loop cfg layer w ps buf1 = Inr buf'" and l: "length buf' = length buf1"
    and c: "\<forall>i < length buf1. buf' ! i =
        (if (i div 4 div w, i div 4 mod w) \<in> set ps then expected_byte cfg layer w i else buf1 ! i)"
    by blast
  have "buf' ! i = (if (i div 4 div w, i div 4 mod w) \<in> set (p # ps)
                     then expected_byte cfg layer w i else buf ! i)" if i: "i < length buf" for i
  proof (cases "(i div 4 div w, i div 4 mod w) \<in> set ps")
    case True
    then show ?thesis using c i len1 by simp
  next
    case False
    then have e: "buf' ! i = buf1 ! i" using c i len1 by simp
    have n: "buf1 ! i = (if i = idx + 3 then chan 3 px else if i = idx + 2 then chan 2 px
        else if i = idx + 1 then chan 1 px else if i = idx then chan 0 px else buf ! i)"
      unfolding buf1_def using inb i by (intro nth_store4) (simp_all add: idx_def)
    show ?thesis
    proof (cases "i div 4 div w = y \<and> i div 4 mod w = x")
      case True
      then have "i = idx \<or> i = idx + 1 \<or> i = idx + 2 \<or> i = idx + 3"
        using idx_decode [OF xw, of i y] by (simp add: idx_def)
      then have "buf1 ! i = expected_byte cfg layer w i"
        using n expected_at [OF xw, of 0 cfg layer y] expected_at [OF xw, of 1 cfg layer y]
          expected_at [OF xw, of 2 cfg layer y] expected_at [OF xw, of 3 cfg layer y]
        by (auto simp: idx_def px_def)
      then show ?thesis using e True p by simp
    next
      case F2: False
      then have "\<not> (i = idx \<or> i = idx + 1 \<or> i = idx + 2 \<or> i = idx + 3)"
        using idx_decode [OF xw, of i y] by (simp add: idx_def)
      then have "buf1 ! i = buf ! i" using n by simp
      then show ?thesis using e False F2 p by auto
    qed
  qed
  then show ?case using step r l len1 by simp
qed



lemma pi_ge_3: "3 \<le> pi"
proof -
  have "sin (pi / 6) \<le> pi / 6" by (rule sin_x_le_x) simp
  then show ?thesis by (simp add: sin_30)
qed

lemma sin_cubic_lower:
  fixes x :: real
  assumes "0 \<le> x"
  shows "x - x ^ 3 / 6 \<le> sin x"
proof -
  have "\<bar>sin x - (\<Sum>m<3. sin_coeff m * x ^ m)\<bar> \<le> inverse (fact 3) * \<bar>x\<bar> ^ 3"
    by (rule Maclaurin_sin_bound)
  moreover have "(\<Sum>m<3. sin_coeff m * x ^ m) = x"
    by (simp add: sin_coeff_def numeral_3_eq_3)
  moreover have "inverse (fact 3) * \<bar>x\<bar> ^ 3 = x ^ 3 / 6"
    using assms by (simp add: fact_numeral)
  ultimately show ?thesis by linarith
qed

lemma cos_quadratic_lower:
  fixes t :: real
  shows "1 - t\<^sup>2 / 2 \<le> cos t"
proof -
  have "\<bar>sin (t / 2)\<bar> \<le> \<bar>t / 2\<bar>" by (rule abs_sin_x_le_abs_x)
  then have "(sin (t / 2))\<^sup>2 \<le> (t / 2)\<^sup>2" by (simp only: abs_le_square_iff)
  moreover have "cos t = 1 - 2 * (sin (t / 2))\<^sup>2" using cos_double_sin [of "t / 2"] by simp
  ultimately show ?thesis by (simp add: power2_eq_square) 
qed

lemma sin_layer1_bounds:
  "18 / 100 \<le> sin (2 * pi / 33)" "sin (2 * pi / 33) \<le> 8 / 33"
proof -
  have a: "2 / 11 \<le> 2 * pi / 33" using pi_ge_3 by simp
  have b: "2 * pi / 33 \<le> pi / 2" using pi_gt_zero by simp
  have "sin (2 / 11) \<le> sin (2 * pi / 33)"
    using a b pi_gt_zero by (intro sin_monotone_2pi_le) simp_all
  moreover have "(2 / 11) - (2 / 11) ^ 3 / 6 \<le> sin (2 / 11 :: real)" by (rule sin_cubic_lower) simp
  ultimately show "18 / 100 \<le> sin (2 * pi / 33)" by (simp add: power3_eq_cube)
  have "sin (2 * pi / 33) \<le> 2 * pi / 33" by (rule sin_x_le_x) simp
  then show "sin (2 * pi / 33) \<le> 8 / 33" using pi_less_4 by simp
qed

lemma exp_neg_bounds:
  fixes a :: real
  assumes "0 \<le> a"
  shows "1 - a \<le> exp (- a)" "exp (- a) \<le> 1 / (1 + a + a\<^sup>2 / 2)"
proof -
  show "1 - a \<le> exp (- a)" using exp_ge_add_one_self [of "- a"] by simp
  have "1 + a + a\<^sup>2 / 2 \<le> exp a" using assms by (rule exp_lower_Taylor_quadratic)
  moreover have "0 < 1 + a + a\<^sup>2 / 2" using assms by (intro add_pos_nonneg) simp_all
  ultimately have "1 / exp a \<le> 1 / (1 + a + a\<^sup>2 / 2)"
    by (intro divide_left_mono) (simp_all add: mult_pos_pos)
  then show "exp (- a) \<le> 1 / (1 + a + a\<^sup>2 / 2)" by (simp add: exp_minus')
qed

lemma exp_alpha_bounds:
  "9697 / 10000 \<le> exp (- SCTT_ALPHA)" "exp (- SCTT_ALPHA) \<le> 9703 / 10000"
proof -
  have p: "0 \<le> SCTT_ALPHA" by (simp add: SCTT_ALPHA_def)
  have "(9697 / 10000 :: real) \<le> 1 - SCTT_ALPHA" by (simp add: SCTT_ALPHA_def)
  then show "9697 / 10000 \<le> exp (- SCTT_ALPHA)" using exp_neg_bounds(1) [OF p] by linarith
  have "1 / (1 + SCTT_ALPHA + SCTT_ALPHA\<^sup>2 / 2) \<le> (9703 / 10000 :: real)"
    by (simp add: SCTT_ALPHA_def power2_eq_square)
  then show "exp (- SCTT_ALPHA) \<le> 9703 / 10000" using exp_neg_bounds(2) [OF p] by linarith
qed

lemma resonance_layer1:
  defines "r \<equiv> exp (- SCTT_ALPHA) * (1 + (1 / 5) * sin (2 * pi / 33))"
  shows "1 < r" "r < 102 / 100"
proof -
  define q where "q = exp (- SCTT_ALPHA)"
  define s where "s = sin (2 * pi / 33)"
  have q: "9697 / 10000 \<le> q" "q \<le> 9703 / 10000" unfolding q_def by (rule exp_alpha_bounds)+
  have s: "18 / 100 \<le> s" "s \<le> 8 / 33" unfolding s_def by (rule sin_layer1_bounds)+
  have u: "1036 / 1000 \<le> 1 + (1 / 5) * s" "1 + (1 / 5) * s \<le> 1049 / 1000" using s by simp_all
  have "(9697 / 10000) * (1036 / 1000) \<le> q * (1 + (1 / 5) * s)"
    using q u by (intro mult_mono) simp_all
  then show "1 < r" unfolding r_def q_def [symmetric] s_def [symmetric] by simp
  have "q * (1 + (1 / 5) * s) \<le> (9703 / 10000) * (1049 / 1000)"
    using q u by (intro mult_mono) simp_all
  then show "r < 102 / 100" unfolding r_def q_def [symmetric] s_def [symmetric] by simp
qed

lemma blue_window:
  fixes r :: real
  assumes "1 < r" "r < 102 / 100"
  shows "- 255 < 255 * cos (r * pi)" "255 * cos (r * pi) < - 254"
proof -
  define t where "t = (r - 1) * pi"
  have t0: "0 < t" using assms pi_gt_zero by (simp add: t_def)
  have "t < (2 / 100) * 4" unfolding t_def using assms pi_less_4 pi_gt_zero
    by (intro mult_strict_mono) simp_all
  then have t1: "t < 8 / 100" by simp
  have c: "cos (r * pi) = - cos t"
  proof -
    have "r * pi = t + pi" by (simp add: t_def algebra_simps)
    then show ?thesis by simp
  qed
  have "cos (2 * (t / 2)) < 1" using t0 t1 by (intro cos_double_less_one) simp_all
  then have lt1: "cos t < 1" by simp
  have "t\<^sup>2 < (8 / 100)\<^sup>2" using t0 t1 by (intro power_strict_mono) simp_all
  then have "1 - (8 / 100)\<^sup>2 / 2 < 1 - t\<^sup>2 / 2" by simp
  then have "1 - (8 / 100)\<^sup>2 / 2 < cos t" using cos_quadratic_lower [of t] by linarith
  then have gt: "254 / 255 < cos t" by (simp add: power2_eq_square)
  show "- 255 < 255 * cos (r * pi)" using lt1 c by simp
  show "255 * cos (r * pi) < - 254" using gt c by simp
qed

lemma py_int_blue:
  fixes v :: real
  assumes "- 255 < v" "v < - 254"
  shows "py_int v = - 254" "\<lfloor>v\<rfloor> = - 255"
proof -
  have "\<lceil>v\<rceil> = - 254" using assms by (intro ceiling_unique) simp_all
  then show "py_int v = - 254" using assms by (simp add: py_int_def)
  show "\<lfloor>v\<rfloor> = - 255" using assms by (intro floor_unique) simp_all
qed

lemma bytes_blue: "((- 254 :: int) AND 255) XOR 85 = 87" "(((- 255 :: int) mod 256) XOR 85) = 84"
  by simp_all


lemma buffer_content:
  assumes "alpha cfg \<noteq> 0" "layers cfg \<noteq> 0" "x < w" "y < h" "c < 4"
  shows "\<exists>buf. create_resonant_pixel_buffer cfg layer w h = Inr buf \<and> length buf = w * h * 4
           \<and> buf ! ((y * w + x) * 4 + c) = chan c (pixel_rgba layer (resonance_value cfg layer x y))"
proof -
  let ?ps = "List.product [0..<h] [0..<w]"
  let ?b0 = "replicate (w * h * 4) (0 :: int)"
  have bound: "(y' * w + x') * 4 + 3 < w * h * 4" if "x' < w" "y' < h" for x' y'
  proof -
    have "y' * w + x' < y' * w + w" using that by simp
    also have "\<dots> = Suc y' * w" by simp
    also have "\<dots> \<le> h * w" using that by (intro mult_le_mono1) simp
    finally have "y' * w + x' < h * w" .
    then show ?thesis by (simp add: mult.commute)
  qed
  have pre: "\<forall>(y', x') \<in> set ?ps. x' < w \<and> (y' * w + x') * 4 + 3 < length ?b0"
    using bound by auto
  from pixel_loop_content [OF assms(1,2) pre, of layer] obtain buf where
    r: "pixel_loop cfg layer w ?ps ?b0 = Inr buf" and l: "length buf = length ?b0"
    and c: "\<forall>i < length ?b0. buf ! i =
        (if (i div 4 div w, i div 4 mod w) \<in> set ?ps then expected_byte cfg layer w i else ?b0 ! i)"
    by blast
  define i where "i = (y * w + x) * 4 + c"
  have ib: "i < length ?b0" using bound [OF assms(3,4)] assms(5) by (simp add: i_def)
  have dec: "i div 4 div w = y \<and> i div 4 mod w = x"
    using idx_decode [OF assms(3), of i y] assms(5) unfolding i_def by arith
  then have mem: "(i div 4 div w, i div 4 mod w) \<in> set ?ps" using assms(3,4) by simp
  have "buf ! i = expected_byte cfg layer w i" using c ib mem by simp
  then have "buf ! i = chan c (pixel_rgba layer (resonance_value cfg layer x y))"
    using expected_at [OF assms(3,5), of cfg layer y] by (simp add: i_def)
  then show ?thesis using r l by (simp add: create_resonant_pixel_buffer_def i_def)
qed

lemma resonance_positive:
  assumes "alpha cfg \<noteq> 0" "layers cfg \<noteq> 0"
  shows "0 < resonance_value cfg layer x y"
proof -
  define b where "b = exp (- alpha cfg * real_of_int layer)"
  define s where "s = sin (2 * pi * real_of_int (int x + int y) / (1 / alpha cfg))"
  define t where "t = sin (2 * pi * real_of_int layer / real_of_int (layers cfg))"
  have "resonance_value cfg layer x y = b * (1 + (3 / 10) * s) * (1 + (1 / 5) * t)"
    using assms by (simp add: resonance_value_def calculate_visual_resonance_def Let_def b_def s_def t_def)
  moreover have b0: "0 < b" by (simp add: b_def)
  moreover have st: "- 1 \<le> s" "s \<le> 1" "- 1 \<le> t" "t \<le> 1" by (simp_all add: s_def t_def)
  ultimately show ?thesis using modulation_bounds(1) [OF st b0] by linarith
qed

text \<open>
  Claim C3, as the code has it. For a non-zero \<open>\<alpha>\<close> and a non-zero \<open>L\<close>, every pixel
  \<open>(x, y)\<close> of the buffer of a layer holds, at offset \<open>(y * width + x) * 4\<close>, the bytes
  derived from its resonance \<open>r\<close>: red is \<open>floor (255 * r) mod 256\<close> (\<open>r\<close> is positive),
  green is \<open>int (255 * sin (r * pi)) mod 256\<close> and blue is
  \<open>int (255 * cos (r * pi)) mod 256\<close>, where \<open>int\<close> drops the fractional part towards
  zero and \<open>mod\<close> is the floor-based modulo; the three are XORed with \<open>0xAA\<close> on an even
  layer and with \<open>0x55\<close> on an odd one; the alpha byte is 255 and is not masked.
\<close>

theorem pixel_bytes:
  fixes cfg :: config and layer :: int and x y w h :: nat
  assumes "alpha cfg \<noteq> 0" "layers cfg \<noteq> 0" "x < w" "y < h"
  defines "r \<equiv> resonance_value cfg layer x y"
  defines "m \<equiv> (if layer mod 2 = 0 then 170 else 85)"
  defines "i \<equiv> (y * w + x) * 4"
  shows "\<exists>buf. create_resonant_pixel_buffer cfg layer w h = Inr buf
           \<and> calculate_visual_resonance cfg layer (int x) (int y) = Inr r
           \<and> buf ! i = (\<lfloor>255 * r\<rfloor> mod 256) XOR m
           \<and> buf ! (i + 1) = (py_int (255 * sin (r * pi)) mod 256) XOR m
           \<and> buf ! (i + 2) = (py_int (255 * cos (r * pi)) mod 256) XOR m
           \<and> buf ! (i + 3) = 255"
proof -
  let ?px = "pixel_rgba layer r"
  from buffer_content [OF assms(1-4), of 0 layer] obtain buf where
    b: "create_resonant_pixel_buffer cfg layer w h = Inr buf"
    and c0: "buf ! (i + 0) = chan 0 ?px" by (auto simp: r_def i_def)
  have c1: "buf ! (i + 1) = chan 1 ?px"
    using buffer_content [OF assms(1-4), of 1 layer] b by (auto simp: r_def i_def)
  have c2: "buf ! (i + 2) = chan 2 ?px"
    using buffer_content [OF assms(1-4), of 2 layer] b by (auto simp: r_def i_def)
  have c3: "buf ! (i + 3) = chan 3 ?px"
    using buffer_content [OF assms(1-4), of 3 layer] b by (auto simp: r_def i_def)
  have rp: "0 < r" unfolding r_def using assms(1,2) by (rule resonance_positive)
  then have fl: "py_int (255 * r) = \<lfloor>255 * r\<rfloor>" by (simp add: py_int_def)
  have px: "chan 0 ?px = (\<lfloor>255 * r\<rfloor> mod 256) XOR m"
    "chan 1 ?px = (py_int (255 * sin (r * pi)) mod 256) XOR m"
    "chan 2 ?px = (py_int (255 * cos (r * pi)) mod 256) XOR m"
    "chan 3 ?px = 255"
    by (simp_all add: chan_def pixel_rgba_def Let_def pattern_of_def m_def and_255_mod fl)
  have cv: "calculate_visual_resonance cfg layer (int x) (int y) = Inr r"
    unfolding r_def using assms(1,2) by (rule resonance_defined)
  show ?thesis using b cv c0 c1 c2 c3 px by simp
qed

lemma sctt_nonzero: "alpha sctt_config \<noteq> 0" "layers sctt_config \<noteq> 0"
  by (simp_all add: sctt_config_def SCTT_ALPHA_def SCTT_LAYERS_def)

theorem pixel_bytes_witness:
  "alpha sctt_config \<noteq> 0 \<and> layers sctt_config \<noteq> 0 \<and> (0 :: nat) < 640 \<and> (0 :: nat) < 480
   \<and> (\<exists>buf. create_resonant_pixel_buffer sctt_config 0 640 480 = Inr buf
         \<and> calculate_visual_resonance sctt_config 0 0 0 = Inr (resonance_value sctt_config 0 0 0)
         \<and> buf ! 3 = 255)"
proof -
  have h: "(0 :: nat) < 640" "(0 :: nat) < 480" by simp_all
  show ?thesis
    using sctt_nonzero h pixel_bytes [OF sctt_nonzero h, of 0] by auto
qed

lemma resonance_layer1_value:
  "resonance_value sctt_config 1 0 0 = exp (- SCTT_ALPHA) * (1 + (1 / 5) * sin (2 * pi / 33))"
  by (simp add: resonance_value_def calculate_visual_resonance_def Let_def sctt_config_def
      SCTT_ALPHA_def SCTT_LAYERS_def)

text \<open>
  Claim C3 as stated (green and blue from the floor of the intermediate value) fails: in
  the buffer of layer 1 with the constants of the source, the blue byte of the pixel
  \<open>(0, 0)\<close> is 87, where the floor gives 84. The intermediate value \<open>255 * cos (r * pi)\<close>
  lies strictly between \<open>- 255\<close> and \<open>- 254\<close>.
\<close>

theorem pixel_bytes_floor_counterexample:
  "(case create_resonant_pixel_buffer sctt_config 1 640 480 of Inr buf \<Rightarrow> buf ! 2 | Inl e \<Rightarrow> - 1) = 87
   \<and> chan 2 (spec_pixel_rgba 1 (resonance_value sctt_config 1 0 0)) = 84"
proof -
  define r where "r = resonance_value sctt_config 1 0 0"
  have rb: "1 < r" "r < 102 / 100"
    unfolding r_def resonance_layer1_value by (rule resonance_layer1)+
  have w: "- 255 < 255 * cos (r * pi)" "255 * cos (r * pi) < - 254"
    using blue_window [OF rb] by simp_all
  have t: "py_int (255 * cos (r * pi)) = - 254" and f: "\<lfloor>255 * cos (r * pi)\<rfloor> = - 255"
    using py_int_blue [OF w] by simp_all
  have code: "chan 2 (pixel_rgba 1 r) = 87"
    using t by (simp add: chan_def pixel_rgba_def Let_def pattern_of_def)
  have spec: "chan 2 (spec_pixel_rgba 1 r) = 84"
    using f by (simp add: chan_def spec_pixel_rgba_def Let_def)
  from buffer_content [OF sctt_nonzero, of 0 640 0 480 2 1] obtain buf where
    b: "create_resonant_pixel_buffer sctt_config 1 640 480 = Inr buf"
    and c: "buf ! ((0 * 640 + 0) * 4 + 2) = chan 2 (pixel_rgba 1 r)"
    unfolding r_def by auto
  from c have "buf ! 2 = chan 2 (pixel_rgba 1 r)" by (simp add: numeral_2_eq_2)
  then show ?thesis using b code spec by (simp add: r_def)
qed

section \<open>The layer scheduler\<close>

lemma period_index: "nat (layer mod 5) \<in> {0, 1, 2, 3, 4}"
proof -
  have "nat (layer mod 5) < 5" by simp
  then show ?thesis by (simp add: insert_iff) arith
qed

lemma period_pos: "0 < [10007, 10009, 10037, 10039, 10061 :: int] ! nat (layer mod 5)"
  using period_index [of layer] by auto

lemma timing_reference:
  "prime_resonance_timing sctt_config layer now =
     (let period = [10007, 10009, 10037, 10039, 10061] ! nat (layer mod 5)
      in Inr (real_of_int ((period - now mod period) mod period) / 1000000))"
  using period_index [of layer]
  by (auto simp add: prime_resonance_timing_def sctt_config_def Let_def)

text \<open>
  Claim C4. With the periods \<open>[10007, 10009, 10037, 10039, 10061]\<close> of the source, for
  every layer index and every reading \<open>now\<close> of the clock in microseconds, the delay is
  \<open>((period - now mod period) mod period) / 1000000\<close> with
  \<open>period = periods[layer mod 5]\<close>; it lies in \<open>[0, period / 1000000)\<close>, and it is 0
  whenever \<open>now mod period = 0\<close>.
\<close>

theorem alignment_delay:
  fixes layer now :: int
  defines "period \<equiv> [10007, 10009, 10037, 10039, 10061] ! nat (layer mod 5)"
  defines "wait_us \<equiv> (period - now mod period) mod period"
  shows "prime_resonance_timing sctt_config layer now = Inr (real_of_int wait_us / 1000000)
           \<and> 0 \<le> real_of_int wait_us / 1000000
           \<and> real_of_int wait_us / 1000000 < real_of_int period / 1000000
           \<and> (now mod period = 0 \<longrightarrow> real_of_int wait_us / 1000000 = 0)"
proof -
  have pos: "0 < period" unfolding period_def by (rule period_pos)
  have eq: "prime_resonance_timing sctt_config layer now = Inr (real_of_int wait_us / 1000000)"
    using timing_reference [of layer now] by (simp add: Let_def period_def wait_us_def)
  have lo: "0 \<le> wait_us" using pos by (simp add: wait_us_def)
  have hi: "wait_us < period" using pos by (simp add: wait_us_def)
  have z: "now mod period = 0 \<longrightarrow> wait_us = 0" by (simp add: wait_us_def)
  from lo have lo': "0 \<le> real_of_int wait_us / 1000000" by simp
  from hi have hi': "real_of_int wait_us / 1000000 < real_of_int period / 1000000" by simp
  from z have z': "now mod period = 0 \<longrightarrow> real_of_int wait_us / 1000000 = 0" by simp
  show ?thesis using eq lo' hi' z' by blast
qed

theorem alignment_delay_witness:
  "(10007 :: int) mod 10007 = 0 \<and> prime_resonance_timing sctt_config 0 10007 = Inr 0"
  using alignment_delay [of 0 10007] by simp

end
